theory Spec2Isabelle
  imports Complex_Main
begin

section \<open>Data model\<close>

text \<open>
  The loan ledger of \<^verbatim>\<open>src/main.py\<close> over the tables of \<^verbatim>\<open>src/app/models.py\<close>.

  Conventions of the embedding.
  \<^item> Money (Python \<^verbatim>\<open>float\<close>, SQL \<^verbatim>\<open>Numeric(10, 2)\<close>) is an exact rational: binary
    floating-point error and the rounding of the column type are not modelled.
  \<^item> A date is its proleptic Gregorian ordinal, the value of \<^verbatim>\<open>date.toordinal()\<close>, as an
    unbounded integer; \<^verbatim>\<open>date + timedelta(days=1)\<close> is \<open>d + 1\<close>.
  \<^item> A table is the list of its rows. Only the columns that the modelled routes read or
    write are kept; every record field carries the column's name behind a prefix
    naming its table.
  \<^item> \<^verbatim>\<open>db.session.commit()\<close> is taken to succeed; an exception raised before it inside a
    \<^verbatim>\<open>try\<close> block rolls the session back, so the route returns the database it received.
\<close>

type_synonym money = rat
type_synonym date = int
type_synonym datetime = int

text \<open>\<^verbatim>\<open>date.weekday()\<close>: Monday is 0 and Sunday is 6; ordinal 1 (0001-01-01) is a Monday.\<close>

definition weekday :: "date \<Rightarrow> int" where
  "weekday d = (d + 6) mod 7"

record customer =
  cl_id :: int
  cl_nome :: string
  cl_empresa :: string
  cl_client_id :: "int option"

record loan =
  c_id :: int
  c_cliente_id :: int
  c_descricao :: string
  c_valor_original :: money
  c_valor_pago :: money
  c_valor_total :: "money option"
  c_taxa_juros :: rat
  c_data_vencimento :: date
  c_data_pagamento :: "date option"
  c_status :: string
  c_numero_parcelas :: int
  c_tipo_cobranca :: string
  c_atualizado_em :: datetime
  c_client_id :: "int option"

record installment =
  p_id :: int
  p_cobranca_id :: int
  p_numero_parcela :: int
  p_valor :: money
  p_data_vencimento :: date
  p_status :: string
  p_valor_pago :: money
  p_data_pagamento :: "date option"
  p_forma_pagamento :: "string option"
  p_multa_manual :: "money option"
  p_atualizado_em :: datetime
  p_client_id :: "int option"

record payment =
  pg_id :: int
  pg_cobranca_id :: int
  pg_valor_pago :: money
  pg_data_pagamento :: date
  pg_observacao :: string
  pg_forma_pagamento :: string
  pg_usuario_id :: "int option"
  pg_client_id :: "int option"

record payment_history =
  h_id :: int
  h_cobranca_id :: int
  h_cliente_id :: int
  h_valor_pago :: money
  h_data_pagamento :: datetime
  h_forma_pagamento :: string
  h_observacoes :: string
  h_usuario_id :: "int option"
  h_client_id :: "int option"

record configuration =
  cfg_chave :: string
  cfg_valor :: "string option"
  cfg_client_id :: int

record database =
  clientes :: "customer list"
  cobrancas :: "loan list"
  parcelas :: "installment list"
  pagamentos :: "payment list"
  historico_pagamentos :: "payment_history list"
  configuracoes :: "configuration list"

text \<open>
  What a request reads from its surroundings: \<^verbatim>\<open>date.today()\<close>, \<^verbatim>\<open>datetime.utcnow()\<close> and
  \<^verbatim>\<open>session.get('usuario_id')\<close>.
\<close>

record env =
  hoje :: date
  utcnow :: datetime
  usuario_id :: "int option"

text \<open>
  The flashed message of a route, one constructor per message of the source; its
  argument is the number the message prints. \<open>NotFound\<close> is the 404 of
  \<^verbatim>\<open>get_or_404\<close>, \<open>ServerError\<close> an exception that no handler of the route catches.
\<close>

datatype response =
    NotFound
  | ServerError
  | ParcelaJaPaga
  | ParcelaPagaCobrancaLiquidada int
  | ParcelaMarcadaPaga int
  | ErroProcessarPagamento
  | ValorPagamentoNaoPositivo
  | PagamentoRegistrado money
  | ValorInvalido
  | MultaNegativa
  | MultaDefinida money int
  | MultaRemovida int
  | MultaInvalida
  | DataVencimentoInvalida
  | DataVencimentoDomingo
  | DataParcelaAtualizada int date
  | FormatoDataInvalido
  | DomingoNaoPermitido
  | TaxaJurosInvalida
  | CobrancaCriada int
  | ClienteNaoEncontrado
  | ValorEmprestadoObrigatorio
  | ValorEmprestadoNaoPositivo
  | DataVencimentoObrigatoria
  | ErroNosValores
  | ErroAtualizarCobranca
  | CobrancaAtualizada int
  | CobrancaDeletada
  | ClienteExcluido

text \<open>
  A form field that a route converts inside its \<^verbatim>\<open>try\<close> block: \<open>Absent\<close> when
  \<^verbatim>\<open>request.form.get\<close> finds nothing to convert, \<open>Malformed\<close> when the conversion
  (\<^verbatim>\<open>float\<close>, \<^verbatim>\<open>int\<close>, \<^verbatim>\<open>strptime\<close>) raises \<^verbatim>\<open>ValueError\<close>, \<open>Given v\<close> when it returns \<open>v\<close>.
\<close>

datatype 'a field = Absent | Malformed | Given 'a

section \<open>Helpers of the object-relational layer\<close>

definition fresh_id :: "int list \<Rightarrow> int" where
  "fresh_id ids = foldr max ids 0 + 1"

definition get_parcela :: "database \<Rightarrow> int \<Rightarrow> installment option" where
  "get_parcela db i = find (\<lambda>p. p_id p = i) (parcelas db)"

definition get_cobranca :: "database \<Rightarrow> int \<Rightarrow> loan option" where
  "get_cobranca db i = find (\<lambda>c. c_id c = i) (cobrancas db)"

text \<open>The relationship \<^verbatim>\<open>cobranca.installments\<close>.\<close>

definition installments :: "database \<Rightarrow> loan \<Rightarrow> installment list" where
  "installments db c = filter (\<lambda>p. p_cobranca_id p = c_id c) (parcelas db)"

definition update_parcela :: "installment \<Rightarrow> installment list \<Rightarrow> installment list" where
  "update_parcela p' ps = map (\<lambda>p. if p_id p = p_id p' then p' else p) ps"

definition update_cobranca :: "loan \<Rightarrow> loan list \<Rightarrow> loan list" where
  "update_cobranca c' cs = map (\<lambda>c. if c_id c = c_id c' then c' else c) cs"

text \<open>\<^verbatim>\<open>str(n)\<close> of an integer, as an f-string prints it.\<close>

fun str_nat :: "nat \<Rightarrow> string" where
  "str_nat n =
     (if n < 10 then [''0123456789'' ! n]
      else str_nat (n div 10) @ [''0123456789'' ! (n mod 10)])"

definition str_int :: "int \<Rightarrow> string" where
  "str_int i = (if i < 0 then CHR ''-'' # str_nat (nat (- i)) else str_nat (nat i))"

section \<open>Payment ledger\<close>

subsection \<open>\<^verbatim>\<open>marcar_parcela_paga\<close>: settling an installment\<close>

definition parcela_paga :: "env \<Rightarrow> installment \<Rightarrow> installment" where
  "parcela_paga e parcela =
     parcela\<lparr>p_status := ''Pago'',
             p_valor_pago := p_valor parcela,
             p_forma_pagamento := Some ''Dinheiro'',
             p_data_pagamento := Some (hoje e),
             p_atualizado_em := utcnow e\<rparr>"

definition historico_parcela :: "env \<Rightarrow> database \<Rightarrow> loan \<Rightarrow> installment \<Rightarrow> payment_history" where
  "historico_parcela e db cobranca parcela =
     \<lparr>h_id = fresh_id (map h_id (historico_pagamentos db)),
      h_cobranca_id = c_id cobranca,
      h_cliente_id = c_cliente_id cobranca,
      h_valor_pago = p_valor parcela,
      h_data_pagamento = utcnow e,
      h_forma_pagamento = ''Dinheiro'',
      h_observacoes = ''Pagamento da parcela '' @ str_int (p_numero_parcela parcela),
      h_usuario_id = usuario_id e,
      h_client_id = Some (c_cliente_id cobranca)\<rparr>"

text \<open>
  Step 4 of the route: \<^verbatim>\<open>float(cobranca.valor_total)\<close> raises \<^verbatim>\<open>TypeError\<close> on a loan whose
  nullable \<^verbatim>\<open>valor_total\<close> is \<^verbatim>\<open>NULL\<close>; the handler then rolls everything back.
\<close>

definition marcar_parcela_paga :: "env \<Rightarrow> database \<Rightarrow> int \<Rightarrow> response \<times> database" where
  "marcar_parcela_paga e db i =
     (case get_parcela db i of
        None \<Rightarrow> (NotFound, db)
      | Some parcela \<Rightarrow>
          (case get_cobranca db (p_cobranca_id parcela) of
             None \<Rightarrow> (ServerError, db)
           | Some cobranca \<Rightarrow>
               if p_status parcela = ''Pago'' then (ParcelaJaPaga, db)
               else
                 let parcela' = parcela_paga e parcela;
                     cobranca1 = cobranca\<lparr>c_valor_pago := c_valor_pago cobranca + p_valor parcela,
                                          c_atualizado_em := utcnow e\<rparr>;
                     novo_historico = historico_parcela e db cobranca parcela
                 in (case c_valor_total cobranca1 of
                       None \<Rightarrow> (ErroProcessarPagamento, db)
                     | Some total_devido \<Rightarrow>
                         let quitada = (c_valor_pago cobranca1 \<ge> total_devido);
                             cobranca2 =
                               (if quitada
                                then cobranca1\<lparr>c_status := ''Pago'',
                                               c_data_pagamento := Some (hoje e)\<rparr>
                                else cobranca1)
                         in ((if quitada
                              then ParcelaPagaCobrancaLiquidada (p_numero_parcela parcela)
                              else ParcelaMarcadaPaga (p_numero_parcela parcela)),
                             db\<lparr>parcelas := update_parcela parcela' (parcelas db),
                                cobrancas := update_cobranca cobranca2 (cobrancas db),
                                historico_pagamentos :=
                                  historico_pagamentos db @ [novo_historico]\<rparr>))))"

subsection \<open>\<^verbatim>\<open>registrar_pagamento\<close>: a generic payment\<close>

text \<open>
  The form field \<^verbatim>\<open>valor_pago\<close> after \<^verbatim>\<open>float(...)\<close>: \<open>None\<close> is the \<^verbatim>\<open>ValueError\<close> of a text
  that is no number.
\<close>

definition registrar_pagamento ::
  "env \<Rightarrow> database \<Rightarrow> int \<Rightarrow> money option \<Rightarrow> string \<Rightarrow> response \<times> database" where
  "registrar_pagamento e db i valor_form observacao_pagamento =
     (case get_cobranca db i of
        None \<Rightarrow> (NotFound, db)
      | Some cobranca \<Rightarrow>
          (case valor_form of
             None \<Rightarrow> (ValorInvalido, db)
           | Some valor_a_pagar \<Rightarrow>
               if valor_a_pagar \<le> 0 then (ValorPagamentoNaoPositivo, db)
               else
                 let novo_pagamento =
                       \<lparr>pg_id = fresh_id (map pg_id (pagamentos db)),
                        pg_cobranca_id = c_id cobranca,
                        pg_valor_pago = valor_a_pagar,
                        pg_data_pagamento = hoje e,
                        pg_observacao = observacao_pagamento,
                        pg_forma_pagamento = ''Dinheiro'',
                        pg_usuario_id = usuario_id e,
                        pg_client_id = Some (c_cliente_id cobranca)\<rparr>;
                     cobranca' = cobranca\<lparr>c_valor_pago := c_valor_pago cobranca + valor_a_pagar,
                                          c_atualizado_em := utcnow e\<rparr>;
                     novo_historico =
                       \<lparr>h_id = fresh_id (map h_id (historico_pagamentos db)),
                        h_cobranca_id = c_id cobranca,
                        h_cliente_id = c_cliente_id cobranca,
                        h_valor_pago = valor_a_pagar,
                        h_data_pagamento = utcnow e,
                        h_forma_pagamento = ''Dinheiro'',
                        h_observacoes = observacao_pagamento,
                        h_usuario_id = usuario_id e,
                        h_client_id = Some (c_cliente_id cobranca)\<rparr>
                 in (PagamentoRegistrado valor_a_pagar,
                     db\<lparr>cobrancas := update_cobranca cobranca' (cobrancas db),
                        pagamentos := pagamentos db @ [novo_pagamento],
                        historico_pagamentos :=
                          historico_pagamentos db @ [novo_historico]\<rparr>)))"

subsection \<open>\<^verbatim>\<open>editar_multa_parcela\<close>: the manual penalty of an installment\<close>

text \<open>\<open>Absent\<close> is a field that is missing, empty or blank: the penalty is removed.\<close>

definition editar_multa_parcela ::
  "env \<Rightarrow> database \<Rightarrow> int \<Rightarrow> money field \<Rightarrow> response \<times> database" where
  "editar_multa_parcela e db i multa_input =
     (case get_parcela db i of
        None \<Rightarrow> (NotFound, db)
      | Some parcela \<Rightarrow>
          (case multa_input of
             Given multa_valor \<Rightarrow>
               if multa_valor < 0 then (MultaNegativa, db)
               else (MultaDefinida multa_valor (p_numero_parcela parcela),
                     db\<lparr>parcelas :=
                          update_parcela
                            (parcela\<lparr>p_multa_manual := Some multa_valor,
                                     p_atualizado_em := utcnow e\<rparr>)
                            (parcelas db)\<rparr>)
           | Absent \<Rightarrow>
               (MultaRemovida (p_numero_parcela parcela),
                db\<lparr>parcelas :=
                     update_parcela
                       (parcela\<lparr>p_multa_manual := None, p_atualizado_em := utcnow e\<rparr>)
                       (parcelas db)\<rparr>)
           | Malformed \<Rightarrow> (MultaInvalida, db)))"

subsection \<open>\<^verbatim>\<open>editar_data_parcela\<close>: the due date of an installment\<close>

definition editar_data_parcela ::
  "env \<Rightarrow> database \<Rightarrow> int \<Rightarrow> date field \<Rightarrow> response \<times> database" where
  "editar_data_parcela e db i nova_data_str =
     (case get_parcela db i of
        None \<Rightarrow> (NotFound, db)
      | Some parcela \<Rightarrow>
          (case nova_data_str of
             Absent \<Rightarrow> (DataVencimentoInvalida, db)
           | Malformed \<Rightarrow> (FormatoDataInvalido, db)
           | Given nova_data \<Rightarrow>
               if weekday nova_data = 6 then (DataVencimentoDomingo, db)
               else (DataParcelaAtualizada (p_numero_parcela parcela) nova_data,
                     db\<lparr>parcelas :=
                          update_parcela
                            (parcela\<lparr>p_data_vencimento := nova_data,
                                     p_atualizado_em := utcnow e\<rparr>)
                            (parcelas db)\<rparr>)))"

section \<open>Schedule generator\<close>

text \<open>The inner loop \<^verbatim>\<open>while data_vencimento_atual.weekday() == 6: ... += timedelta(days=1)\<close>.\<close>

function pular_domingos :: "date \<Rightarrow> date" where
  "pular_domingos d = (if weekday d = 6 then pular_domingos (d + 1) else d)"
  by pat_completeness auto
termination
proof (relation "measure (\<lambda>d. if weekday d = 6 then 1 else 0)")
  fix d :: date
  assume "weekday d = 6"
  then have "weekday (d + 1) \<noteq> 6"
    unfolding weekday_def by presburger
  then show "(d + 1, d) \<in> measure (\<lambda>d. if weekday d = 6 then 1 else 0)"
    using \<open>weekday d = 6\<close> by simp
qed simp

declare pular_domingos.simps [simp del]

text \<open>
  A new \<^verbatim>\<open>Installment(numero_parcela=i + 1, valor=..., data_vencimento=..., status='Pendente')\<close>
  with the column defaults of the model; the flush gives it the next primary keys of
  the table and the key of the loan it was appended to.
\<close>

definition nova_parcela ::
  "env \<Rightarrow> database \<Rightarrow> int \<Rightarrow> money \<Rightarrow> int \<Rightarrow> date \<Rightarrow> installment" where
  "nova_parcela e db cobranca_id valor_parcela i data_vencimento_atual =
     \<lparr>p_id = fresh_id (map p_id (parcelas db)) + i,
      p_cobranca_id = cobranca_id,
      p_numero_parcela = i + 1,
      p_valor = valor_parcela,
      p_data_vencimento = data_vencimento_atual,
      p_status = ''Pendente'',
      p_valor_pago = 0,
      p_data_pagamento = None,
      p_forma_pagamento = None,
      p_multa_manual = None,
      p_atualizado_em = utcnow e,
      p_client_id = None\<rparr>"

text \<open>
  The loop \<^verbatim>\<open>for i in range(numero_parcelas)\<close>: the first argument counts the iterations
  left, \<open>i\<close> is the loop index and \<open>d\<close> the value of \<^verbatim>\<open>data_vencimento_atual\<close> on entry.
\<close>

fun gerar_parcelas :: "nat \<Rightarrow> int \<Rightarrow> date \<Rightarrow> (int \<Rightarrow> date \<Rightarrow> installment) \<Rightarrow> installment list" where
  "gerar_parcelas 0 i d mk = []"
| "gerar_parcelas (Suc k) i d mk =
     (let d' = pular_domingos d in mk i d' # gerar_parcelas k (i + 1) (d' + 1) mk)"

subsection \<open>\<^verbatim>\<open>adicionar_cobranca\<close>: a new loan and its schedule\<close>

text \<open>
  The form after the conversions that precede every check of the route
  (\<^verbatim>\<open>int\<close>, \<^verbatim>\<open>float\<close>, \<^verbatim>\<open>strptime\<close>); a request whose conversion fails is aborted there.
\<close>

record cobranca_form =
  f_cliente_id :: int
  f_descricao :: string
  f_valor_emprestimo :: rat
  f_taxa_juros :: rat
  f_data_vencimento :: date

definition criar_cobranca :: "env \<Rightarrow> database \<Rightarrow> cobranca_form \<Rightarrow> int \<Rightarrow> response \<times> database" where
  "criar_cobranca e db form numero_parcelas =
     (let valor_devido_total = f_valor_emprestimo form * (1 + f_taxa_juros form / 100);
          valor_parcela = valor_devido_total / of_int numero_parcelas;
          nova_cobranca =
            \<lparr>c_id = fresh_id (map c_id (cobrancas db)),
             c_cliente_id = f_cliente_id form,
             c_descricao = f_descricao form,
             c_valor_original = f_valor_emprestimo form,
             c_valor_pago = 0,
             c_valor_total = Some valor_devido_total,
             c_taxa_juros = f_taxa_juros form,
             c_data_vencimento = f_data_vencimento form,
             c_data_pagamento = None,
             c_status = ''Pendente'',
             c_numero_parcelas = numero_parcelas,
             c_tipo_cobranca = ''Parcelada'',
             c_atualizado_em = utcnow e,
             c_client_id = None\<rparr>
      in (CobrancaCriada numero_parcelas,
          db\<lparr>cobrancas := cobrancas db @ [nova_cobranca],
             parcelas := parcelas db @
               gerar_parcelas (nat numero_parcelas) 0 (f_data_vencimento form)
                 (nova_parcela e db (c_id nova_cobranca) valor_parcela)\<rparr>))"

definition adicionar_cobranca :: "env \<Rightarrow> database \<Rightarrow> cobranca_form \<Rightarrow> response \<times> database" where
  "adicionar_cobranca e db form =
     (if weekday (f_data_vencimento form) = 6 then (DomingoNaoPermitido, db)
      else if f_taxa_juros form = 30 then criar_cobranca e db form 10
      else if f_taxa_juros form = 60 then criar_cobranca e db form 15
      else (TaxaJurosInvalida, db))"

subsection \<open>\<^verbatim>\<open>editar_cobranca\<close>: regenerating the schedule of a loan\<close>




section \<open>Deletions\<close>



section \<open>Reachable states\<close>


text \<open>
  The part of the not yet settled installments of a loan that is negative, and the
  bookkeeping fact that the induction over the reachable states carries: a loan that
  is \<^verbatim>\<open>Pago\<close>, or has a negative installment left to settle, has a \<^verbatim>\<open>valor_total\<close> that its
  \<^verbatim>\<open>valor_pago\<close> and those negative installments together reach.
\<close>

definition neg_sum :: "installment list \<Rightarrow> rat" where
  "neg_sum ps = sum_list (map (\<lambda>p. min (p_valor p) 0) (filter (\<lambda>p. p_status p \<noteq> ''Pago'') ps))"



section \<open>Read paths: the amount owed\<close>

text \<open>\<^verbatim>\<open>parcela.multa_manual or 0\<close>: \<^verbatim>\<open>None\<close> and a zero are falsy.\<close>

definition multa_ou_zero :: "money option \<Rightarrow> money" where
  "multa_ou_zero m = (case m of None \<Rightarrow> 0 | Some v \<Rightarrow> if v = 0 then 0 else v)"

text \<open>\<^verbatim>\<open>float(p.valor) + float(p.multa_manual or 0)\<close>, the summand of every Python read path.\<close>

definition valor_atualizado :: "installment \<Rightarrow> money" where
  "valor_atualizado p = p_valor p + multa_ou_zero (p_multa_manual p)"

text \<open>The relationship \<^verbatim>\<open>cliente.loans\<close>.\<close>

definition loans :: "database \<Rightarrow> customer \<Rightarrow> loan list" where
  "loans db cl = filter (\<lambda>c. c_cliente_id c = cl_id cl) (cobrancas db)"

subsection \<open>\<^verbatim>\<open>index\<close>: the dashboard\<close>

definition total_clientes :: "database \<Rightarrow> nat" where
  "total_clientes db = length (clientes db)"

definition cobrancas_pendentes :: "database \<Rightarrow> nat" where
  "cobrancas_pendentes db = length (filter (\<lambda>c. c_status c = ''Pendente'') (cobrancas db))"

definition cobrancas_vencidas :: "env \<Rightarrow> database \<Rightarrow> nat" where
  "cobrancas_vencidas e db =
     length (filter (\<lambda>c. c_status c = ''Pendente'' \<and> c_data_vencimento c < hoje e) (cobrancas db))"

definition cobrancas_pagas :: "database \<Rightarrow> nat" where
  "cobrancas_pagas db = length (filter (\<lambda>c. c_status c = ''Pago'') (cobrancas db))"

text \<open>
  \<^verbatim>\<open>db.session.query(Installment).join(Loan).filter(Loan.status == 'Pendente',
  Installment.status == 'Pendente')\<close>: the inner join on the foreign key.
\<close>

definition parcelas_pendentes_query :: "database \<Rightarrow> installment list" where
  "parcelas_pendentes_query db =
     [p. p \<leftarrow> parcelas db, c \<leftarrow> cobrancas db,
         c_id c = p_cobranca_id p \<and> c_status c = ''Pendente'' \<and> p_status p = ''Pendente'']"

definition saldo_devedor_total :: "database \<Rightarrow> money" where
  "saldo_devedor_total db = sum_list (map valor_atualizado (parcelas_pendentes_query db))"

text \<open>
  The figures per company: two SQL sums over the join with \<^verbatim>\<open>Loan\<close> and \<^verbatim>\<open>Customer\<close>;
  \<^verbatim>\<open>func.sum\<close> skips the \<^verbatim>\<open>NULL\<close> penalties, and \<^verbatim>\<open>or 0\<close> turns the sum of no row into 0.
\<close>

definition parcelas_pendentes_empresa :: "database \<Rightarrow> string \<Rightarrow> installment list" where
  "parcelas_pendentes_empresa db emp =
     [p. p \<leftarrow> parcelas db, c \<leftarrow> cobrancas db, cl \<leftarrow> clientes db,
         c_id c = p_cobranca_id p \<and> cl_id cl = c_cliente_id c \<and> cl_empresa cl = emp \<and>
         c_status c = ''Pendente'' \<and> p_status p = ''Pendente'']"

definition kpi_saldo_devedor :: "database \<Rightarrow> string \<Rightarrow> money" where
  "kpi_saldo_devedor db emp =
     (let saldo_emp = sum_list (map p_valor (parcelas_pendentes_empresa db emp));
          multas_emp = sum_list (map (\<lambda>p. case p_multa_manual p of None \<Rightarrow> 0 | Some m \<Rightarrow> m)
                                    (parcelas_pendentes_empresa db emp))
      in saldo_emp + multas_emp)"

text \<open>The list of recent loans: \<^verbatim>\<open>saldo_cob\<close>, shown as \<^verbatim>\<open>total_a_pagar\<close> and \<^verbatim>\<open>saldo_devedor\<close>.\<close>

definition saldo_cob :: "database \<Rightarrow> loan \<Rightarrow> money" where
  "saldo_cob db cob =
     sum_list (map valor_atualizado
       (filter (\<lambda>p. p_status p = ''Pendente'') (installments db cob)))"

text \<open>The balance of a customer in arrears, \<^verbatim>\<open>cli.saldo_devedor_total\<close>.\<close>

definition saldo_inadimplente :: "database \<Rightarrow> customer \<Rightarrow> money" where
  "saldo_inadimplente db cli =
     sum_list (map (\<lambda>cob. sum_list (map valor_atualizado
                       (filter (\<lambda>p. p_status p = ''Pendente'') (installments db cob))))
       (filter (\<lambda>cob. c_status cob = ''Pendente'') (loans db cli)))"

subsection \<open>\<^verbatim>\<open>listar_clientes\<close>: the balance of each customer\<close>

definition saldo_devedor_cliente :: "database \<Rightarrow> customer \<Rightarrow> money" where
  "saldo_devedor_cliente db cliente =
     (let cobrancas_abertas = filter (\<lambda>c. c_status c = ''Pendente'') (loans db cliente)
      in sum_list (map (\<lambda>cobranca.
            let parcelas_pendentes =
                  filter (\<lambda>p. p_status p = ''Pendente'') (installments db cobranca)
            in sum_list (map valor_atualizado parcelas_pendentes)) cobrancas_abertas))"

subsection \<open>\<^verbatim>\<open>visualizar_cliente\<close>: the loans of one customer\<close>

text \<open>
  \<^verbatim>\<open>saldo_devedor_calculado\<close>, shown as \<^verbatim>\<open>total_a_pagar\<close> and \<^verbatim>\<open>saldo_devedor\<close> of the loan: the
  sum over the pending installments, in the order of \<^verbatim>\<open>numero_parcela\<close>, less the
  \<^verbatim>\<open>valor_pago\<close> of the loan. The route computes it for every loan of the customer.
\<close>

definition saldo_devedor_calculado :: "database \<Rightarrow> loan \<Rightarrow> money" where
  "saldo_devedor_calculado db cobranca =
     (let parcelas_ordenadas = sort_key p_numero_parcela (installments db cobranca);
          saldo_devedor_cobranca =
            sum_list (map valor_atualizado
              (filter (\<lambda>p. p_status p = ''Pendente'') parcelas_ordenadas))
      in saldo_devedor_cobranca - c_valor_pago cobranca)"

subsection \<open>\<^verbatim>\<open>api_relatorios_kpis\<close>: the reporting figures\<close>

text \<open>\<^verbatim>\<open>func.sum(Installment.valor + func.coalesce(Installment.multa_manual, 0))\<close>.\<close>

definition relatorio_saldo_devedor_total :: "database \<Rightarrow> money" where
  "relatorio_saldo_devedor_total db =
     sum_list (map (\<lambda>p. p_valor p + (case p_multa_manual p of None \<Rightarrow> 0 | Some m \<Rightarrow> m))
       (parcelas_pendentes_query db))"

subsection \<open>The derived balance rule in the words of the specification\<close>

text \<open>
  The outstanding balance of a loan: the sum over its pending installments of the
  amount plus \<open>max manual_penalty 0\<close>, a null penalty counting as none.
\<close>

definition spec_outstanding_balance :: "installment list \<Rightarrow> money" where
  "spec_outstanding_balance ps =
     sum_list (map (\<lambda>p. p_valor p + max (case p_multa_manual p of None \<Rightarrow> 0 | Some m \<Rightarrow> m) 0)
       (filter (\<lambda>p. p_status p = ''Pendente'') ps))"

section \<open>Accrual calculator\<close>

datatype py_error = TypeError | ValueError

text \<open>
  \<^verbatim>\<open>SELECT chave, valor FROM configuracoes\<close> and the dictionary built from its rows: a
  later row replaces an earlier one with the same key.
\<close>

definition config_dict :: "database \<Rightarrow> (string \<rightharpoonup> string option)" where
  "config_dict db =
     foldl (\<lambda>config row. config(cfg_chave row \<mapsto> cfg_valor row)) Map.empty (configuracoes db)"

text \<open>
  \<^verbatim>\<open>int(config.get(k, d))\<close> and \<^verbatim>\<open>float(config.get(k, d))\<close>. The conversions of a text by the
  built-in \<^verbatim>\<open>int\<close> and \<^verbatim>\<open>float\<close> are parameters, \<open>None\<close> standing for \<^verbatim>\<open>ValueError\<close>; the
  value of a \<^verbatim>\<open>NULL\<close> column is \<^verbatim>\<open>None\<close>, on which both raise \<^verbatim>\<open>TypeError\<close>.
\<close>

definition config_get :: "(string \<Rightarrow> 'a option) \<Rightarrow> (string \<rightharpoonup> string option) \<Rightarrow> string \<Rightarrow> 'a \<Rightarrow> py_error + 'a" where
  "config_get conv config k d =
     (case config k of
        None \<Rightarrow> Inr d
      | Some None \<Rightarrow> Inl TypeError
      | Some (Some s) \<Rightarrow> (case conv s of None \<Rightarrow> Inl ValueError | Some v \<Rightarrow> Inr v))"

text \<open>\<^verbatim>\<open>round(x, 2)\<close>: to the nearest hundredth, a tie going to the even digit.\<close>

definition round_half_even :: "rat \<Rightarrow> int" where
  "round_half_even x =
     (let f = \<lfloor>x\<rfloor>; r = x - of_int f
      in if r < 1 / 2 then f else if r > 1 / 2 then f + 1 else if even f then f else f + 1)"

definition round2 :: "rat \<Rightarrow> rat" where
  "round2 x = of_int (round_half_even (x * 100)) / 100"

text \<open>
  The argument of \<^verbatim>\<open>calcular_valor_atualizado\<close>, a dictionary:
  \<^verbatim>\<open>cobranca['data_vencimento']\<close> is \<open>None\<close> when it is falsy, \<^verbatim>\<open>cobranca.get('desconto', 0)\<close>
  reads \<open>cd_desconto\<close>.
\<close>

record cobranca_dict =
  cd_status :: string
  cd_data_vencimento :: "date option"
  cd_valor_original :: money
  cd_desconto :: "money option"

text \<open>\<^verbatim>\<open>datetime.now()\<close>: the date and the microseconds since midnight.\<close>

record instant =
  i_date :: date
  i_micros :: nat

record accrual =
  r_multa :: money
  r_juros :: money
  r_valor_total :: money
  r_dias_atraso :: int

definition sem_acrescimo :: "cobranca_dict \<Rightarrow> accrual" where
  "sem_acrescimo cobranca =
     \<lparr>r_multa = 0, r_juros = 0,
      r_valor_total = cd_valor_original cobranca -
        (case cd_desconto cobranca of None \<Rightarrow> 0 | Some d \<Rightarrow> d),
      r_dias_atraso = 0\<rparr>"

definition calcular_valor_atualizado ::
  "(string \<Rightarrow> int option) \<Rightarrow> (string \<Rightarrow> rat option) \<Rightarrow> database \<Rightarrow> instant \<Rightarrow> cobranca_dict
     \<Rightarrow> py_error + accrual" where
  "calcular_valor_atualizado py_int py_float db agora cobranca =
     (if cd_status cobranca \<noteq> ''Pago'' then
        (case cd_data_vencimento cobranca of
           None \<Rightarrow> Inr (sem_acrescimo cobranca)
         | Some data_venc \<Rightarrow>
             if i_date agora > data_venc \<or> (i_date agora = data_venc \<and> i_micros agora > 0) then
               let dias_atraso = i_date agora - data_venc;
                   config = config_dict db
               in (case config_get py_int config ''dias_tolerancia'' 3 of
                     Inl err \<Rightarrow> Inl err
                   | Inr dias_tolerancia \<Rightarrow>
                       if dias_atraso > dias_tolerancia then
                         (case config_get py_float config ''taxa_multa'' 10 of
                            Inl err \<Rightarrow> Inl err
                          | Inr taxa_multa \<Rightarrow>
                              let multa = cd_valor_original cobranca * (taxa_multa / 100)
                              in (case config_get py_float config ''taxa_juros_mensal'' 2 of
                                    Inl err \<Rightarrow> Inl err
                                  | Inr taxa_juros \<Rightarrow>
                                      let meses_atraso = of_int dias_atraso / 30;
                                          juros = cd_valor_original cobranca *
                                                    (taxa_juros / 100) * meses_atraso
                                      in Inr \<lparr>r_multa = round2 multa,
                                               r_juros = round2 juros,
                                               r_valor_total =
                                                 round2 (cd_valor_original cobranca + multa + juros -
                                                   (case cd_desconto cobranca of
                                                      None \<Rightarrow> 0 | Some d \<Rightarrow> d)),
                                               r_dias_atraso = dias_atraso\<rparr>))
                       else Inr (sem_acrescimo cobranca))
             else Inr (sem_acrescimo cobranca))
      else Inr (sem_acrescimo cobranca))"

section \<open>Example data\<close>

text \<open>
  One customer with one loan of two installments of 130 each, the first of them settled.
  Day 738886 is Monday 2024-01-01.
\<close>

definition ex_env :: env where
  "ex_env = \<lparr>hoje = 738900, utcnow = 0, usuario_id = Some 1\<rparr>"

definition ex_cliente :: customer where
  "ex_cliente = \<lparr>cl_id = 7, cl_nome = ''Ana'', cl_empresa = ''FH1'', cl_client_id = Some 1\<rparr>"

definition ex_cobranca :: loan where
  "ex_cobranca =
     \<lparr>c_id = 1, c_cliente_id = 7, c_descricao = ''emprestimo'', c_valor_original = 200,
      c_valor_pago = 130, c_valor_total = Some 260, c_taxa_juros = 30,
      c_data_vencimento = 738886, c_data_pagamento = None, c_status = ''Pendente'',
      c_numero_parcelas = 2, c_tipo_cobranca = ''Parcelada'', c_atualizado_em = 0,
      c_client_id = Some 1\<rparr>"

definition ex_parcela1 :: installment where
  "ex_parcela1 =
     \<lparr>p_id = 11, p_cobranca_id = 1, p_numero_parcela = 1, p_valor = 130,
      p_data_vencimento = 738886, p_status = ''Pago'', p_valor_pago = 130,
      p_data_pagamento = Some 738886, p_forma_pagamento = Some ''Dinheiro'',
      p_multa_manual = None, p_atualizado_em = 0, p_client_id = Some 1\<rparr>"

definition ex_parcela2 :: installment where
  "ex_parcela2 =
     \<lparr>p_id = 12, p_cobranca_id = 1, p_numero_parcela = 2, p_valor = 130,
      p_data_vencimento = 738887, p_status = ''Pendente'', p_valor_pago = 0,
      p_data_pagamento = None, p_forma_pagamento = None,
      p_multa_manual = None, p_atualizado_em = 0, p_client_id = Some 1\<rparr>"

definition ex_db :: database where
  "ex_db =
     \<lparr>clientes = [ex_cliente], cobrancas = [ex_cobranca],
      parcelas = [ex_parcela1, ex_parcela2], pagamentos = [],
      historico_pagamentos = [], configuracoes = []\<rparr>"

text \<open>A loan of 1000 at 30 per cent, first due on Saturday 2024-01-06.\<close>

definition ex_form :: cobranca_form where
  "ex_form = \<lparr>f_cliente_id = 7, f_descricao = ''novo'', f_valor_emprestimo = 1000,
              f_taxa_juros = 30, f_data_vencimento = 738891\<rparr>"


section \<open>Outcomes of the two schedule routes\<close>



text \<open>A pending charge of 1000 due on 2024-01-01, as \<^verbatim>\<open>calcular_valor_atualizado\<close> receives it.\<close>

definition ex_dict :: cobranca_dict where
  "ex_dict = \<lparr>cd_status = ''Pendente'', cd_data_vencimento = Some 738886,
               cd_valor_original = 1000, cd_desconto = None\<rparr>"

text \<open>
  The customer alone; then the loan of \<open>ex_form\<close> created for that customer; then the first
  installment of that loan settled.
\<close>

definition ex_db_vazio :: database where
  "ex_db_vazio =
     \<lparr>clientes = [ex_cliente], cobrancas = [], parcelas = [], pagamentos = [],
      historico_pagamentos = [], configuracoes = []\<rparr>"

definition ex_db_criado :: database where
  "ex_db_criado = snd (adicionar_cobranca ex_env ex_db_vazio ex_form)"

definition ex_db_pago1 :: database where
  "ex_db_pago1 = snd (marcar_parcela_paga ex_env ex_db_criado 1)"

section \<open>Tenants\<close>

text \<open>
  The rows of tenant \<open>a\<close>, in the words of the specification: every table restricted to
  the rows whose tenant reference \<^verbatim>\<open>client_id\<close> is \<open>a\<close>.
\<close>

definition tenant_rows :: "int \<Rightarrow> database \<Rightarrow> database" where
  "tenant_rows a db =
     \<lparr>clientes = filter (\<lambda>r. cl_client_id r = Some a) (clientes db),
      cobrancas = filter (\<lambda>r. c_client_id r = Some a) (cobrancas db),
      parcelas = filter (\<lambda>r. p_client_id r = Some a) (parcelas db),
      pagamentos = filter (\<lambda>r. pg_client_id r = Some a) (pagamentos db),
      historico_pagamentos = filter (\<lambda>r. h_client_id r = Some a) (historico_pagamentos db),
      configuracoes = filter (\<lambda>r. cfg_client_id r = a) (configuracoes db)\<rparr>"

text \<open>The database with the tenant reference of every row erased.\<close>

definition erase_tenant :: "database \<Rightarrow> database" where
  "erase_tenant db =
     \<lparr>clientes = map (\<lambda>r. r\<lparr>cl_client_id := None\<rparr>) (clientes db),
      cobrancas = map (\<lambda>r. r\<lparr>c_client_id := None\<rparr>) (cobrancas db),
      parcelas = map (\<lambda>r. r\<lparr>p_client_id := None\<rparr>) (parcelas db),
      pagamentos = map (\<lambda>r. r\<lparr>pg_client_id := None\<rparr>) (pagamentos db),
      historico_pagamentos = map (\<lambda>r. r\<lparr>h_client_id := None\<rparr>) (historico_pagamentos db),
      configuracoes = map (\<lambda>r. r\<lparr>cfg_client_id := 0\<rparr>) (configuracoes db)\<rparr>"

text \<open>
  The example with the rows of a second tenant added: a customer, a pending loan with
  one pending installment of 500, and a tolerance of 60 days.
\<close>

definition ex_db_dois_tenants :: database where
  "ex_db_dois_tenants =
     ex_db\<lparr>clientes := clientes ex_db @
              [\<lparr>cl_id = 8, cl_nome = ''Bia'', cl_empresa = ''FH2'', cl_client_id = Some 2\<rparr>],
            cobrancas := cobrancas ex_db @
              [\<lparr>c_id = 2, c_cliente_id = 8, c_descricao = ''outro'', c_valor_original = 500,
                c_valor_pago = 0, c_valor_total = Some 500, c_taxa_juros = 0,
                c_data_vencimento = 738886, c_data_pagamento = None, c_status = ''Pendente'',
                c_numero_parcelas = 1, c_tipo_cobranca = ''Parcelada'', c_atualizado_em = 0,
                c_client_id = Some 2\<rparr>],
            parcelas := parcelas ex_db @
              [\<lparr>p_id = 21, p_cobranca_id = 2, p_numero_parcela = 1, p_valor = 500,
                p_data_vencimento = 738886, p_status = ''Pendente'', p_valor_pago = 0,
                p_data_pagamento = None, p_forma_pagamento = None,
                p_multa_manual = None, p_atualizado_em = 0, p_client_id = Some 2\<rparr>],
            configuracoes :=
              [\<lparr>cfg_chave = ''dias_tolerancia'', cfg_valor = Some ''60'', cfg_client_id = 2\<rparr>]\<rparr>"

text \<open>A conversion that reads the one text the example stores.\<close>

definition ex_int :: "string \<Rightarrow> int option" where
  "ex_int s = (if s = ''60'' then Some 60 else None)"



section \<open>Lookups after an update\<close>

lemma find_map_upd_same:
  "find (\<lambda>x. f x = k) xs = Some q \<Longrightarrow> f y = k \<Longrightarrow>
   find (\<lambda>x. f x = k) (map (\<lambda>x. if f x = k then y else x) xs) = Some y"
  by (induction xs) (auto split: if_splits)

lemma find_map_upd_other:
  "j \<noteq> k \<Longrightarrow> f y = k \<Longrightarrow>
   find (\<lambda>x. f x = j) (map (\<lambda>x. if f x = k then y else x) xs) = find (\<lambda>x. f x = j) xs"
  by (induction xs) auto

lemma find_Some_holds: "find P xs = Some x \<Longrightarrow> P x"
  by (induction xs) (auto split: if_splits)


lemma get_parcela_id: "get_parcela db i = Some p \<Longrightarrow> p_id p = i"
  by (auto simp: get_parcela_def dest: find_Some_holds)


lemma ex_get_parcela1: "get_parcela ex_db 11 = Some ex_parcela1"
  by (simp add: get_parcela_def ex_db_def ex_parcela1_def)

lemma ex_get_parcela2: "get_parcela ex_db 12 = Some ex_parcela2"
  by (simp add: get_parcela_def ex_db_def ex_parcela1_def ex_parcela2_def)


section \<open>Settling an installment\<close>



section \<open>Properties of the schedule generator\<close>











section \<open>Schedule generation\<close>





section \<open>The tenant field of the audit rows\<close>



section \<open>Amount and due date of an installment\<close>

lemma get_parcela_update:
  assumes "get_parcela db i = Some p" and "p_id p' = i" and "parcelas db' = update_parcela p' (parcelas db)"
  shows "get_parcela db' j = (if j = i then Some p' else get_parcela db j)"
proof (cases "j = i")
  case True
  with assms show ?thesis
    by (simp add: get_parcela_def update_parcela_def find_map_upd_same)
next
  case False
  with assms show ?thesis
    by (simp add: get_parcela_def update_parcela_def find_map_upd_other)
qed

lemma get_parcela_same_rows: "parcelas db' = parcelas db \<Longrightarrow> get_parcela db' j = get_parcela db j"
  by (simp add: get_parcela_def)

lemma marcar_parcela_paga_parcelas:
  "get_parcela (snd (marcar_parcela_paga e db i)) j =
     (case get_parcela db j of
        None \<Rightarrow> None
      | Some p \<Rightarrow>
          if get_parcela (snd (marcar_parcela_paga e db i)) j = get_parcela db j then Some p
          else Some (parcela_paga e p))"
proof (cases "get_parcela db i")
  case None
  then show ?thesis
    by (simp add: marcar_parcela_paga_def split: option.splits)
next
  case (Some parcela)
  then have pid: "p_id parcela = i"
    by (rule get_parcela_id)
  show ?thesis
  proof (cases "snd (marcar_parcela_paga e db i) = db")
    case True
    then show ?thesis
      by (simp split: option.splits)
  next
    case False
    then have "parcelas (snd (marcar_parcela_paga e db i)) =
        update_parcela (parcela_paga e parcela) (parcelas db)"
      using Some by (auto simp: marcar_parcela_paga_def Let_def split: option.splits if_splits)
    from get_parcela_update [OF Some _ this, of j] pid Some show ?thesis
      by (auto simp: parcela_paga_def split: option.splits)
  qed
qed

text \<open>
  C9, as the code has it. The settlement of an installment, a generic payment and the
  edit of a manual penalty change the amount and the due date of no installment, and
  the edit of a due date changes no amount. \<^verbatim>\<open>editar_data_parcela\<close> does not look at the
  status: given a date that is no Sunday it sets the due date of the installment it
  names, be it \<^verbatim>\<open>Pago\<close> or \<^verbatim>\<open>Pendente\<close>, and leaves every other installment as it was.
\<close>

theorem installment_amount_due_date_frame:
  "(\<forall>j. map_option p_valor (get_parcela (snd (marcar_parcela_paga e db i)) j) =
          map_option p_valor (get_parcela db j) \<and>
        map_option p_data_vencimento (get_parcela (snd (marcar_parcela_paga e db i)) j) =
          map_option p_data_vencimento (get_parcela db j)) \<and>
   (\<forall>j. map_option p_valor (get_parcela (snd (registrar_pagamento e db i v obs)) j) =
          map_option p_valor (get_parcela db j) \<and>
        map_option p_data_vencimento (get_parcela (snd (registrar_pagamento e db i v obs)) j) =
          map_option p_data_vencimento (get_parcela db j)) \<and>
   (\<forall>j. map_option p_valor (get_parcela (snd (editar_multa_parcela e db i m)) j) =
          map_option p_valor (get_parcela db j) \<and>
        map_option p_data_vencimento (get_parcela (snd (editar_multa_parcela e db i m)) j) =
          map_option p_data_vencimento (get_parcela db j)) \<and>
   (\<forall>j. map_option p_valor (get_parcela (snd (editar_data_parcela e db i f)) j) =
          map_option p_valor (get_parcela db j)) \<and>
   (\<forall>p d. get_parcela db i = Some p \<and> weekday d \<noteq> 6 \<longrightarrow>
      get_parcela (snd (editar_data_parcela e db i (Given d))) i =
        Some (p\<lparr>p_data_vencimento := d, p_atualizado_em := utcnow e\<rparr>) \<and>
      (\<forall>j. j \<noteq> i \<longrightarrow>
         get_parcela (snd (editar_data_parcela e db i (Given d))) j = get_parcela db j))"
proof (intro conjI allI impI)
  fix j
  show "map_option p_valor (get_parcela (snd (marcar_parcela_paga e db i)) j) =
          map_option p_valor (get_parcela db j)"
    by (subst marcar_parcela_paga_parcelas) (simp add: parcela_paga_def split: option.splits)
  show "map_option p_data_vencimento (get_parcela (snd (marcar_parcela_paga e db i)) j) =
          map_option p_data_vencimento (get_parcela db j)"
    by (subst marcar_parcela_paga_parcelas) (simp add: parcela_paga_def split: option.splits)
  have "parcelas (snd (registrar_pagamento e db i v obs)) = parcelas db"
    by (simp add: registrar_pagamento_def Let_def split: option.splits)
  then have reg: "get_parcela (snd (registrar_pagamento e db i v obs)) j = get_parcela db j"
    by (rule get_parcela_same_rows)
  show "map_option p_valor (get_parcela (snd (registrar_pagamento e db i v obs)) j) =
          map_option p_valor (get_parcela db j)"
    by (simp add: reg)
  show "map_option p_data_vencimento (get_parcela (snd (registrar_pagamento e db i v obs)) j) =
          map_option p_data_vencimento (get_parcela db j)"
    by (simp add: reg)
  have multa: "map_option p_valor (get_parcela (snd (editar_multa_parcela e db i m)) j) =
          map_option p_valor (get_parcela db j) \<and>
        map_option p_data_vencimento (get_parcela (snd (editar_multa_parcela e db i m)) j) =
          map_option p_data_vencimento (get_parcela db j)"
  proof (cases "get_parcela db i")
    case None
    then show ?thesis
      by (simp add: editar_multa_parcela_def)
  next
    case (Some p)
    then have pid: "p_id p = i"
      by (rule get_parcela_id)
    show ?thesis
    proof (cases m)
      case Absent
      have "get_parcela (snd (editar_multa_parcela e db i m)) j =
          (if j = i then Some (p\<lparr>p_multa_manual := None, p_atualizado_em := utcnow e\<rparr>)
           else get_parcela db j)"
        by (rule get_parcela_update [OF Some]) (simp_all add: pid editar_multa_parcela_def Some Absent)
      then show ?thesis
        using Some by simp
    next
      case Malformed
      then show ?thesis
        using Some by (simp add: editar_multa_parcela_def)
    next
      case (Given x)
      show ?thesis
      proof (cases "x < 0")
        case True
        then show ?thesis
          using Some Given by (simp add: editar_multa_parcela_def)
      next
        case False
        have "get_parcela (snd (editar_multa_parcela e db i m)) j =
          (if j = i then Some (p\<lparr>p_multa_manual := Some x, p_atualizado_em := utcnow e\<rparr>)
           else get_parcela db j)"
          by (rule get_parcela_update [OF Some])
            (simp_all add: pid editar_multa_parcela_def Some Given False)
        then show ?thesis
          using Some by simp
      qed
    qed
  qed
  from multa show "map_option p_valor (get_parcela (snd (editar_multa_parcela e db i m)) j) =
          map_option p_valor (get_parcela db j)" ..
  from multa show "map_option p_data_vencimento (get_parcela (snd (editar_multa_parcela e db i m)) j) =
          map_option p_data_vencimento (get_parcela db j)" ..
  show "map_option p_valor (get_parcela (snd (editar_data_parcela e db i f)) j) =
          map_option p_valor (get_parcela db j)"
  proof (cases "get_parcela db i")
    case None
    then show ?thesis
      by (simp add: editar_data_parcela_def)
  next
    case (Some p)
    then have pid: "p_id p = i"
      by (rule get_parcela_id)
    show ?thesis
    proof (cases "\<exists>d. f = Given d \<and> weekday d \<noteq> 6")
      case True
      then obtain d where d: "f = Given d" "weekday d \<noteq> 6"
        by blast
      have "get_parcela (snd (editar_data_parcela e db i f)) j =
          (if j = i then Some (p\<lparr>p_data_vencimento := d, p_atualizado_em := utcnow e\<rparr>)
           else get_parcela db j)"
        by (rule get_parcela_update [OF Some]) (simp_all add: pid editar_data_parcela_def Some d)
      then show ?thesis
        using Some by simp
    next
      case False
      then have "snd (editar_data_parcela e db i f) = db"
        using Some by (cases f) (auto simp: editar_data_parcela_def)
      then show ?thesis
        by simp
    qed
  qed
next
  fix p d
  assume a: "get_parcela db i = Some p \<and> weekday d \<noteq> 6"
  then have p: "get_parcela db i = Some p" and pid: "p_id p = i"
    by (auto dest: get_parcela_id)
  have upd: "\<And>j. get_parcela (snd (editar_data_parcela e db i (Given d))) j =
          (if j = i then Some (p\<lparr>p_data_vencimento := d, p_atualizado_em := utcnow e\<rparr>)
           else get_parcela db j)"
    by (rule get_parcela_update [OF p]) (use a in \<open>simp_all add: pid editar_data_parcela_def\<close>)
  show "get_parcela (snd (editar_data_parcela e db i (Given d))) i =
        Some (p\<lparr>p_data_vencimento := d, p_atualizado_em := utcnow e\<rparr>)"
    by (simp add: upd)
  fix j assume "j \<noteq> i"
  then show "get_parcela (snd (editar_data_parcela e db i (Given d))) j = get_parcela db j"
    by (simp add: upd)
qed

theorem installment_amount_due_date_frame_witness:
  "get_parcela ex_db 12 = Some ex_parcela2 \<and> weekday 738893 \<noteq> 6 \<and>
   get_parcela (snd (editar_data_parcela ex_env ex_db 12 (Given 738893))) 12 =
     Some (ex_parcela2\<lparr>p_data_vencimento := 738893, p_atualizado_em := 0\<rparr>) \<and>
   get_parcela (snd (editar_data_parcela ex_env ex_db 12 (Given 738893))) 11 = Some ex_parcela1 \<and>
   map_option p_valor (get_parcela (snd (marcar_parcela_paga ex_env ex_db 12)) 12) = Some 130 \<and>
   map_option p_data_vencimento (get_parcela (snd (marcar_parcela_paga ex_env ex_db 12)) 12) =
     Some 738887"
proof -
  have wd: "weekday 738893 \<noteq> 6"
    by (simp add: weekday_def)
  note inst = installment_amount_due_date_frame [of ex_env ex_db 12]
  from inst ex_get_parcela2 wd
  have "get_parcela (snd (editar_data_parcela ex_env ex_db 12 (Given 738893))) 12 =
        Some (ex_parcela2\<lparr>p_data_vencimento := 738893, p_atualizado_em := utcnow ex_env\<rparr>) \<and>
      (\<forall>j. j \<noteq> 12 \<longrightarrow>
         get_parcela (snd (editar_data_parcela ex_env ex_db 12 (Given 738893))) j =
           get_parcela ex_db j)"
    by blast
  then have edit: "get_parcela (snd (editar_data_parcela ex_env ex_db 12 (Given 738893))) 12 =
        Some (ex_parcela2\<lparr>p_data_vencimento := 738893, p_atualizado_em := 0\<rparr>)"
    and other: "get_parcela (snd (editar_data_parcela ex_env ex_db 12 (Given 738893))) 11 =
        Some ex_parcela1"
    using ex_get_parcela1 by (simp_all add: ex_env_def)
  from inst have "map_option p_valor (get_parcela (snd (marcar_parcela_paga ex_env ex_db 12)) 12) =
          map_option p_valor (get_parcela ex_db 12) \<and>
        map_option p_data_vencimento (get_parcela (snd (marcar_parcela_paga ex_env ex_db 12)) 12) =
          map_option p_data_vencimento (get_parcela ex_db 12)"
    by blast
  then have settle: "map_option p_valor (get_parcela (snd (marcar_parcela_paga ex_env ex_db 12)) 12) =
        Some 130"
      "map_option p_data_vencimento (get_parcela (snd (marcar_parcela_paga ex_env ex_db 12)) 12) =
        Some 738887"
    by (simp_all add: ex_get_parcela2 ex_parcela2_def)
  from ex_get_parcela2 wd edit other settle show ?thesis
    by blast
qed

text \<open>
  The first installment of the example is \<^verbatim>\<open>Pago\<close> and due on 2024-01-01; the edit moves
  it to 2024-01-08.
\<close>

theorem paid_installment_due_date_counterexample:
  "get_parcela ex_db 11 = Some ex_parcela1 \<and>
   p_status ex_parcela1 = ''Pago'' \<and>
   p_data_vencimento ex_parcela1 = 738886 \<and>
   map_option p_data_vencimento
     (get_parcela (snd (editar_data_parcela ex_env ex_db 11 (Given 738893))) 11) = Some 738893"
  by (simp add: get_parcela_def editar_data_parcela_def update_parcela_def ex_db_def
      ex_parcela1_def ex_parcela2_def weekday_def)

section \<open>Rate tiers and installment counts\<close>







section \<open>Accrual\<close>

lemma round2_hundredths: "round2 (of_int k / 100) = of_int k / 100"
  by (simp add: round2_def round_half_even_def Let_def)

lemma round_half_even_near: "\<bar>of_int (round_half_even x) - x\<bar> \<le> 1 / 2"
proof -
  define f where "f = \<lfloor>x\<rfloor>"
  have bounds: "of_int f \<le> x" "x < of_int f + 1"
    unfolding f_def by linarith+
  have "round_half_even x =
      (if x - of_int f < 1 / 2 then f else if x - of_int f > 1 / 2 then f + 1
       else if even f then f else f + 1)"
    by (simp add: round_half_even_def Let_def f_def)
  with bounds show ?thesis
    by (auto simp: abs_if)
qed

lemma round2_near: "\<bar>round2 x - x\<bar> \<le> 1 / 200"
proof -
  have "\<bar>of_int (round_half_even (x * 100)) - x * 100\<bar> \<le> 1 / 2"
    by (rule round_half_even_near)
  then have "\<bar>(of_int (round_half_even (x * 100)) - x * 100) / 100\<bar> \<le> (1 / 2) / 100"
    by (simp only: abs_divide) simp
  then show ?thesis
    by (simp add: round2_def diff_divide_distrib)
qed



section \<open>The amount owed in the read paths\<close>

lemma sum_filter_insort_key:
  fixes f :: "'a \<Rightarrow> rat"
  shows "sum_list (map f (filter P (insort_key k x xs))) = sum_list (map f (filter P (x # xs)))"
  by (induction xs) (auto simp: algebra_simps)

lemma sum_filter_sort_key:
  fixes f :: "'a \<Rightarrow> rat"
  shows "sum_list (map f (filter P (sort_key k xs))) = sum_list (map f (filter P xs))"
  by (induction xs) (simp_all add: sum_filter_insort_key)

lemma saldo_devedor_calculado_eq:
  "saldo_devedor_calculado db cob = saldo_cob db cob - c_valor_pago cob"
  by (simp add: saldo_devedor_calculado_def saldo_cob_def Let_def sum_filter_sort_key)

lemma valor_atualizado_spec:
  "(case p_multa_manual p of None \<Rightarrow> True | Some m \<Rightarrow> 0 \<le> m) \<Longrightarrow>
   valor_atualizado p = p_valor p + max (case p_multa_manual p of None \<Rightarrow> 0 | Some m \<Rightarrow> m) 0"
  by (auto simp: valor_atualizado_def multa_ou_zero_def split: option.splits)

lemma saldo_cob_spec:
  assumes "list_all (\<lambda>p. case p_multa_manual p of None \<Rightarrow> True | Some m \<Rightarrow> 0 \<le> m)
             (installments db cob)"
  shows "saldo_cob db cob = spec_outstanding_balance (installments db cob)"
proof -
  have "map valor_atualizado (filter (\<lambda>p. p_status p = ''Pendente'') (installments db cob)) =
      map (\<lambda>p. p_valor p + max (case p_multa_manual p of None \<Rightarrow> 0 | Some m \<Rightarrow> m) 0)
        (filter (\<lambda>p. p_status p = ''Pendente'') (installments db cob))"
  proof (rule map_cong [OF refl])
    fix p assume "p \<in> set (filter (\<lambda>p. p_status p = ''Pendente'') (installments db cob))"
    with assms have "case p_multa_manual p of None \<Rightarrow> True | Some m \<Rightarrow> 0 \<le> m"
      by (simp add: list_all_iff)
    then show "valor_atualizado p =
        p_valor p + max (case p_multa_manual p of None \<Rightarrow> 0 | Some m \<Rightarrow> m) 0"
      by (rule valor_atualizado_spec)
  qed
  then show ?thesis
    unfolding saldo_cob_def spec_outstanding_balance_def by (rule arg_cong)
qed

lemma saldo_devedor_cliente_eq:
  "saldo_devedor_cliente db cl =
     sum_list (map (saldo_cob db) (filter (\<lambda>c. c_status c = ''Pendente'') (loans db cl)))"
  by (simp add: saldo_devedor_cliente_def saldo_cob_def [abs_def] Let_def)

lemma saldo_inadimplente_eq:
  "saldo_inadimplente db cl =
     sum_list (map (saldo_cob db) (filter (\<lambda>c. c_status c = ''Pendente'') (loans db cl)))"
  by (simp add: saldo_inadimplente_def saldo_cob_def [abs_def])

lemma multa_ou_zero_coalesce:
  "(case m of None \<Rightarrow> True | Some v \<Rightarrow> (0::rat) \<le> v) \<Longrightarrow>
   multa_ou_zero m = max (case m of None \<Rightarrow> 0 | Some v \<Rightarrow> v) 0"
  by (auto simp: multa_ou_zero_def split: option.splits)

lemma relatorio_saldo_devedor_total_eq:
  "relatorio_saldo_devedor_total db = saldo_devedor_total db"
proof -
  have "multa_ou_zero m = (case m of None \<Rightarrow> 0 | Some v \<Rightarrow> v)" for m
    by (simp add: multa_ou_zero_def split: option.splits)
  then show ?thesis
    by (simp add: relatorio_saldo_devedor_total_def saldo_devedor_total_def
        valor_atualizado_def [abs_def])
qed

text \<open>
  C1. The loan of \<open>ex_form\<close> after the settlement of its first installment is
  \<^verbatim>\<open>Pendente\<close> with nine pending installments of 130. The rule of the specification, the
  dashboard (list of recent loans and total), the customer listing and the reporting
  figures all give 1170; \<^verbatim>\<open>visualizar_cliente\<close> gives 1040, because it also subtracts the
  \<^verbatim>\<open>valor_pago\<close> of the loan (\<open>saldo_devedor_calculado_eq\<close>).
\<close>

theorem customer_detail_balance_diverges:
  "map_option c_status (get_cobranca ex_db_pago1 1) = Some ''Pendente'' \<and>
   map_option (\<lambda>c. spec_outstanding_balance (installments ex_db_pago1 c))
     (get_cobranca ex_db_pago1 1) = Some 1170 \<and>
   map_option (saldo_cob ex_db_pago1) (get_cobranca ex_db_pago1 1) = Some 1170 \<and>
   saldo_devedor_total ex_db_pago1 = 1170 \<and>
   saldo_devedor_cliente ex_db_pago1 ex_cliente = 1170 \<and>
   relatorio_saldo_devedor_total ex_db_pago1 = 1170 \<and>
   kpi_saldo_devedor ex_db_pago1 ''FH1'' = 1170 \<and>
   map_option (saldo_devedor_calculado ex_db_pago1) (get_cobranca ex_db_pago1 1) = Some 1040"
proof (intro conjI)
  show "map_option c_status (get_cobranca ex_db_pago1 1) = Some ''Pendente''"
    by code_simp
  show "map_option (\<lambda>c. spec_outstanding_balance (installments ex_db_pago1 c))
     (get_cobranca ex_db_pago1 1) = Some 1170"
    by code_simp
  show "map_option (saldo_cob ex_db_pago1) (get_cobranca ex_db_pago1 1) = Some 1170"
    by code_simp
  show "saldo_devedor_total ex_db_pago1 = 1170"
    by code_simp
  show "saldo_devedor_cliente ex_db_pago1 ex_cliente = 1170"
    by code_simp
  show "relatorio_saldo_devedor_total ex_db_pago1 = 1170"
    by code_simp
  show "kpi_saldo_devedor ex_db_pago1 ''FH1'' = 1170"
    by code_simp
  show "map_option (saldo_devedor_calculado ex_db_pago1) (get_cobranca ex_db_pago1 1) = Some 1040"
    by code_simp
qed

section \<open>Tenant references\<close>

lemma join2_map:
  "concat (map (\<lambda>p. concat (map (\<lambda>c. if C p c then [f p] else []) cs)) ps) =
   map f (concat (map (\<lambda>p. concat (map (\<lambda>c. if C p c then [p] else []) cs)) ps))"
proof -
  have inner: "concat (map (\<lambda>c. if C p c then [f p] else []) cs) =
      map f (concat (map (\<lambda>c. if C p c then [p] else []) cs))" for p
    by (induction cs) simp_all
  show ?thesis
    by (induction ps) (simp_all add: inner)
qed

lemma join3_map:
  "concat (map (\<lambda>p. concat (map (\<lambda>c. concat (map (\<lambda>l. if C p c l then [f p] else []) ls)) cs)) ps) =
   map f (concat (map (\<lambda>p. concat (map (\<lambda>c. concat (map (\<lambda>l. if C p c l then [p] else []) ls)) cs)) ps))"
proof -
  have inner1: "concat (map (\<lambda>l. if C p c l then [f p] else []) ls) =
      map f (concat (map (\<lambda>l. if C p c l then [p] else []) ls))" for p c
    by (induction ls) simp_all
  have inner2: "concat (map (\<lambda>c. concat (map (\<lambda>l. if C p c l then [f p] else []) ls)) cs) =
      map f (concat (map (\<lambda>c. concat (map (\<lambda>l. if C p c l then [p] else []) ls)) cs))" for p
    by (induction cs) (simp_all add: inner1)
  show ?thesis
    by (induction ps) (simp_all add: inner2)
qed

lemma parcelas_pendentes_query_erase:
  "parcelas_pendentes_query (erase_tenant db) =
     map (\<lambda>r. r\<lparr>p_client_id := None\<rparr>) (parcelas_pendentes_query db)"
  unfolding parcelas_pendentes_query_def erase_tenant_def
  by (simp add: comp_def) (rule join2_map)

lemma parcelas_pendentes_empresa_erase:
  "parcelas_pendentes_empresa (erase_tenant db) emp =
     map (\<lambda>r. r\<lparr>p_client_id := None\<rparr>) (parcelas_pendentes_empresa db emp)"
  unfolding parcelas_pendentes_empresa_def erase_tenant_def
  by (simp add: comp_def) (rule join3_map)

lemma config_dict_fold:
  "foldl (\<lambda>config row. config(cfg_chave row \<mapsto> cfg_valor row)) m
     (map (\<lambda>r. r\<lparr>cfg_client_id := 0\<rparr>) rows) =
   foldl (\<lambda>config row. config(cfg_chave row \<mapsto> cfg_valor row)) m rows"
  by (induction rows arbitrary: m) simp_all

lemma config_dict_erase: "config_dict (erase_tenant db) = config_dict db"
  by (simp add: config_dict_def erase_tenant_def config_dict_fold)

lemma round2_ex: "round2 100 = 100" "round2 22 = 22" "round2 1122 = 1122"
  using round2_hundredths [of 10000] round2_hundredths [of 2200] round2_hundredths [of 112200]
  by simp_all

text \<open>
  C3, as the code has it. No query of \<^verbatim>\<open>main.py\<close> filters by tenant: the counts of the
  dashboard, the balance aggregates of the dashboard and of the reports, and the
  configuration dictionary of the accrual computation are computed from all rows of
  their tables. Their results stay the same when the tenant reference of every row is
  erased, so they do not depend on which tenant a row belongs to.
\<close>

theorem queries_ignore_tenant:
  "total_clientes (erase_tenant db) = total_clientes db \<and>
   cobrancas_pendentes (erase_tenant db) = cobrancas_pendentes db \<and>
   cobrancas_vencidas e (erase_tenant db) = cobrancas_vencidas e db \<and>
   cobrancas_pagas (erase_tenant db) = cobrancas_pagas db \<and>
   saldo_devedor_total (erase_tenant db) = saldo_devedor_total db \<and>
   kpi_saldo_devedor (erase_tenant db) emp = kpi_saldo_devedor db emp \<and>
   relatorio_saldo_devedor_total (erase_tenant db) = relatorio_saldo_devedor_total db \<and>
   config_dict (erase_tenant db) = config_dict db \<and>
   calcular_valor_atualizado py_int py_float (erase_tenant db) agora c =
     calcular_valor_atualizado py_int py_float db agora c"
proof (intro conjI)
  show "total_clientes (erase_tenant db) = total_clientes db"
    by (simp add: total_clientes_def erase_tenant_def)
  show "cobrancas_pendentes (erase_tenant db) = cobrancas_pendentes db"
    by (simp add: cobrancas_pendentes_def erase_tenant_def filter_map comp_def)
  show "cobrancas_vencidas e (erase_tenant db) = cobrancas_vencidas e db"
    by (simp add: cobrancas_vencidas_def erase_tenant_def filter_map comp_def)
  show "cobrancas_pagas (erase_tenant db) = cobrancas_pagas db"
    by (simp add: cobrancas_pagas_def erase_tenant_def filter_map comp_def)
  show "saldo_devedor_total (erase_tenant db) = saldo_devedor_total db"
    by (simp add: saldo_devedor_total_def parcelas_pendentes_query_erase comp_def
        valor_atualizado_def [abs_def])
  show "kpi_saldo_devedor (erase_tenant db) emp = kpi_saldo_devedor db emp"
    by (simp add: kpi_saldo_devedor_def parcelas_pendentes_empresa_erase comp_def)
  show "relatorio_saldo_devedor_total (erase_tenant db) = relatorio_saldo_devedor_total db"
    by (simp add: relatorio_saldo_devedor_total_def parcelas_pendentes_query_erase comp_def)
  show "config_dict (erase_tenant db) = config_dict db"
    by (rule config_dict_erase)
  show "calcular_valor_atualizado py_int py_float (erase_tenant db) agora c =
     calcular_valor_atualizado py_int py_float db agora c"
    unfolding calcular_valor_atualizado_def config_dict_erase by (rule refl)
qed

text \<open>
  The two example databases hold the same rows of tenant 1; the second holds rows of
  tenant 2 as well. The counts, the total balance, the configuration dictionary and the
  accrual on a charge 33 days late differ between them.
\<close>

theorem tenant_isolation_counterexample:
  "tenant_rows 1 ex_db_dois_tenants = tenant_rows 1 ex_db \<and>
   total_clientes ex_db = 1 \<and> total_clientes ex_db_dois_tenants = 2 \<and>
   cobrancas_pendentes ex_db = 1 \<and> cobrancas_pendentes ex_db_dois_tenants = 2 \<and>
   saldo_devedor_total ex_db = 130 \<and> saldo_devedor_total ex_db_dois_tenants = 630 \<and>
   config_dict ex_db ''dias_tolerancia'' = None \<and>
   config_dict ex_db_dois_tenants ''dias_tolerancia'' = Some (Some ''60'') \<and>
   calcular_valor_atualizado ex_int (\<lambda>s. None) ex_db \<lparr>i_date = 738919, i_micros = 1\<rparr> ex_dict =
     Inr \<lparr>r_multa = 100, r_juros = 22, r_valor_total = 1122, r_dias_atraso = 33\<rparr> \<and>
   calcular_valor_atualizado ex_int (\<lambda>s. None) ex_db_dois_tenants
       \<lparr>i_date = 738919, i_micros = 1\<rparr> ex_dict =
     Inr \<lparr>r_multa = 0, r_juros = 0, r_valor_total = 1000, r_dias_atraso = 0\<rparr>"
proof (intro conjI)
  show "tenant_rows 1 ex_db_dois_tenants = tenant_rows 1 ex_db"
    by (simp add: tenant_rows_def ex_db_dois_tenants_def ex_db_def ex_cliente_def
        ex_cobranca_def ex_parcela1_def ex_parcela2_def)
  show "total_clientes ex_db = 1" "total_clientes ex_db_dois_tenants = 2"
    by (simp_all add: total_clientes_def ex_db_dois_tenants_def ex_db_def)
  show "cobrancas_pendentes ex_db = 1" "cobrancas_pendentes ex_db_dois_tenants = 2"
    by (simp_all add: cobrancas_pendentes_def ex_db_dois_tenants_def ex_db_def ex_cobranca_def)
  show "saldo_devedor_total ex_db = 130"
    by code_simp
  show "saldo_devedor_total ex_db_dois_tenants = 630"
    by code_simp
  show "config_dict ex_db ''dias_tolerancia'' = None"
    by (simp add: config_dict_def ex_db_def)
  show "config_dict ex_db_dois_tenants ''dias_tolerancia'' = Some (Some ''60'')"
    by (simp add: config_dict_def ex_db_dois_tenants_def)
  show "calcular_valor_atualizado ex_int (\<lambda>s. None) ex_db \<lparr>i_date = 738919, i_micros = 1\<rparr> ex_dict =
     Inr \<lparr>r_multa = 100, r_juros = 22, r_valor_total = 1122, r_dias_atraso = 33\<rparr>"
    by (simp add: calcular_valor_atualizado_def config_dict_def config_get_def ex_db_def ex_dict_def
        round2_ex Let_def)
  show "calcular_valor_atualizado ex_int (\<lambda>s. None) ex_db_dois_tenants
       \<lparr>i_date = 738919, i_micros = 1\<rparr> ex_dict =
     Inr \<lparr>r_multa = 0, r_juros = 0, r_valor_total = 1000, r_dias_atraso = 0\<rparr>"
    by (simp add: calcular_valor_atualizado_def config_dict_def config_get_def
        ex_db_dois_tenants_def ex_dict_def ex_int_def sem_acrescimo_def Let_def)
qed

section \<open>The ledger invariant\<close>


lemma neg_sum_append: "neg_sum (xs @ ys) = neg_sum xs + neg_sum ys"
  by (simp add: neg_sum_def)





lemma fresh_id_pos: "0 < fresh_id ids"
  unfolding fresh_id_def by (induction ids) auto

lemma instalments_update_parcelas:
  "installments (db\<lparr>parcelas := ps\<rparr>) c = filter (\<lambda>p. p_cobranca_id p = c_id c) ps"
  by (simp add: installments_def)



























section \<open>Status of a loan\<close>


lemma get_cobranca_same_rows:
  "cobrancas db' = cobrancas db \<Longrightarrow> get_cobranca db' j = get_cobranca db j"
  by (simp add: get_cobranca_def)














end
